theory Spec2Isabelle
  imports Complex_Main
begin

section \<open>Camera pose optimizer (nerfstudio/cameras/camera_optimizers.py)\<close>

text \<open>
  A shallow embedding of \<^verbatim>\<open>CameraOptimizer\<close>. The values stored in tensors are real
  numbers. Gathering, masking and the identity transform do no arithmetic; the Lie maps
  are parameters of the model; the arithmetic of the regularization term, which in the
  program is floating-point arithmetic, is a parameter of the model as well, with exact
  arithmetic over the reals as one instance. The sums and products by which
  \<^verbatim>\<open>apply_to_raybundle\<close> and \<^verbatim>\<open>apply_to_camera\<close> compose a correction with a ray or a pose
  are written over the reals; the program rounds them.
  Shapes that the source fixes in its annotations are fixed by type: a correction is a
  3x4 matrix, a ray origin or direction a 3-vector, a parameter row a 6-vector. The batch
  axis is a list, and a tensor that has lost its batch axis (the result of
  \<^verbatim>\<open>squeeze()\<close> on a batch of one) is kept apart from a batch.
\<close>

subsection \<open>Errors and tensors\<close>

datatype error =
    AssertNever string
  | AssertionError string
  | AttributeError string
  | IndexError
  | RuntimeError

type_synonym device = string
type_synonym vec3 = "real \<times> real \<times> real"
type_synonym vec6 = "real \<times> real \<times> real \<times> real \<times> real \<times> real"
type_synonym row4 = "real \<times> real \<times> real \<times> real"
type_synonym mat33 = "vec3 \<times> vec3 \<times> vec3"
type_synonym mat34 = "row4 \<times> row4 \<times> row4"
type_synonym mat44 = "row4 \<times> row4 \<times> row4 \<times> row4"

text \<open>A tensor seen along its batch axis: \<open>Vector xs\<close> has the axis (shape \<open>[N, ...]\<close>),
  \<open>Scalar x\<close> does not (shape \<open>[...]\<close>).\<close>

datatype 'a tensor = Scalar 'a | Vector "'a list"

text \<open>\<^verbatim>\<open>t.shape[0]\<close>: a tensor without a batch axis has an empty shape tuple.\<close>

fun shape0 :: "'a tensor \<Rightarrow> error + nat" where
  "shape0 (Scalar x) = Inl IndexError"
| "shape0 (Vector xs) = Inr (length xs)"

text \<open>\<^verbatim>\<open>t[i]\<close> along the batch axis: negative indices count from the end, anything outside
  raises.\<close>

definition index1 :: "'a list \<Rightarrow> int \<Rightarrow> error + 'a" where
  "index1 xs i =
     (let n = int (length xs); j = (if i < 0 then i + n else i)
      in if 0 \<le> j \<and> j < n then Inr (xs ! nat j) else Inl IndexError)"

fun gather :: "'a list \<Rightarrow> int list \<Rightarrow> error + 'a list" where
  "gather xs [] = Inr []"
| "gather xs (i # is) =
     (case index1 xs i of
        Inl e \<Rightarrow> Inl e
      | Inr x \<Rightarrow> (case gather xs is of Inl e \<Rightarrow> Inl e | Inr ys \<Rightarrow> Inr (x # ys)))"

text \<open>\<^verbatim>\<open>t[indices]\<close> (and \<^verbatim>\<open>t[indices, :]\<close>) for an integer index tensor.\<close>

fun index_t :: "'a list \<Rightarrow> int tensor \<Rightarrow> error + 'a tensor" where
  "index_t xs (Scalar i) =
     (case index1 xs i of Inl e \<Rightarrow> Inl e | Inr x \<Rightarrow> Inr (Scalar x))"
| "index_t xs (Vector is) =
     (case gather xs is of Inl e \<Rightarrow> Inl e | Inr ys \<Rightarrow> Inr (Vector ys))"

text \<open>\<^verbatim>\<open>t[mask] = m\<close> for a boolean mask over the batch axis.\<close>

fun mask_assign :: "'a list \<Rightarrow> bool tensor \<Rightarrow> 'a \<Rightarrow> error + 'a list" where
  "mask_assign ms (Scalar b) m = Inr (if b then map (\<lambda>x. m) ms else ms)"
| "mask_assign ms (Vector bs) m =
     (if length bs \<noteq> length ms then Inl IndexError
      else Inr (map (\<lambda>(x, b). if b then m else x) (zip ms bs)))"

text \<open>\<^verbatim>\<open>t.squeeze()\<close> for a tensor of shape \<open>[N, 1]\<close>, given by its \<open>N\<close> entries: every axis
  of size one goes, so a batch of one loses its batch axis as well.\<close>

fun squeeze :: "'a list \<Rightarrow> 'a tensor" where
  "squeeze [x] = Scalar x"
| "squeeze xs = Vector xs"

subsection \<open>3x4 transforms\<close>

definition eye34 :: mat34 where
  "eye34 = ((1, 0, 0, 0), (0, 1, 0, 0), (0, 0, 1, 0))"

text \<open>\<^verbatim>\<open>m[:3, 3]\<close> and \<^verbatim>\<open>m[:3, :3]\<close>.\<close>

fun translation_col :: "mat34 \<Rightarrow> vec3" where
  "translation_col ((a0, a1, a2, a3), (b0, b1, b2, b3), (c0, c1, c2, c3)) = (a3, b3, c3)"

fun rotation_block :: "mat34 \<Rightarrow> mat33" where
  "rotation_block ((a0, a1, a2, a3), (b0, b1, b2, b3), (c0, c1, c2, c3)) =
     ((a0, a1, a2), (b0, b1, b2), (c0, c1, c2))"

fun vadd :: "vec3 \<Rightarrow> vec3 \<Rightarrow> vec3" where
  "vadd (a, b, c) (x, y, z) = (a + x, b + y, c + z)"

fun dot3 :: "vec3 \<Rightarrow> vec3 \<Rightarrow> real" where
  "dot3 (a, b, c) (x, y, z) = a * x + b * y + c * z"

fun matvec :: "mat33 \<Rightarrow> vec3 \<Rightarrow> vec3" where
  "matvec (r0, r1, r2) v = (dot3 r0 v, dot3 r1 v, dot3 r2 v)"

text \<open>\<^verbatim>\<open>t[:, :3]\<close> and \<^verbatim>\<open>t[:, 3:]\<close> on one parameter row.\<close>

fun first3 :: "vec6 \<Rightarrow> vec3" where
  "first3 (a, b, c, d, e, f) = (a, b, c)"

fun last3 :: "vec6 \<Rightarrow> vec3" where
  "last3 (a, b, c, d, e, f) = (d, e, f)"

definition zero6 :: vec6 where
  "zero6 = (0, 0, 0, 0, 0, 0)"

subsection \<open>The helpers imported from other modules\<close>

text \<open>
  \<^verbatim>\<open>exp_map_SO3xR3\<close>, \<^verbatim>\<open>exp_map_SE3\<close> (nerfstudio.cameras.lie_groups) and
  \<^verbatim>\<open>multiply\<close> (nerfstudio.utils.poses) are not part of the sources at hand; the optimizer
  is modelled over any choice of them. Each Lie map is given by what it does to one
  parameter row.
\<close>

record helpers =
  exp_map_SO3xR3 :: "vec6 \<Rightarrow> mat34"
  exp_map_SE3 :: "vec6 \<Rightarrow> mat34"
  multiply :: "mat34 list \<Rightarrow> mat34 list \<Rightarrow> mat34 list"

text \<open>
  Modelled from the spec: the batching contract of the Lie maps, whose code
  (lie_groups.py) is missing. "Input/output are batched: input shape [N,6], output shape
  [N,3,4]": a batch of rows is mapped row by row; a single row without a batch axis is
  outside the contract, and is modelled as the index error that slicing it along two axes
  raises.
\<close>

fun batched :: "(vec6 \<Rightarrow> mat34) \<Rightarrow> vec6 tensor \<Rightarrow> error + mat34 list" where
  "batched f (Scalar v) = Inl IndexError"
| "batched f (Vector vs) = Inr (map f vs)"

subsection \<open>Configuration and construction\<close>

record config =
  mode :: string
  trans_l2_penalty :: real
  rot_l2_penalty :: real
  penalty_scale :: real

text \<open>The attributes of a \<^verbatim>\<open>CameraOptimizer\<close>. \<open>pose_adjustment\<close> is \<open>None\<close> when the
  attribute was never set; it lives on \<open>device\<close>. The two tensors derived from the
  non-trainable indices carry the device they are on.\<close>

record camera_optimizer =
  config :: config
  num_cameras :: int
  device :: device
  non_trainable_camera_indices :: "(device \<times> int list) option"
  pose_adjustment :: "vec6 list option"
  suffix :: string
  non_trainable_camera_filter :: "(device \<times> bool list) option"

text \<open>\<^verbatim>\<open>[True if i in indices else False for i in range(num_cameras)]\<close>\<close>

definition camera_filter :: "int \<Rightarrow> int list \<Rightarrow> bool list" where
  "camera_filter n xs = map (\<lambda>i. i \<in> set xs) [0..n - 1]"

text \<open>\<^verbatim>\<open>CameraOptimizer.__init__\<close>; \<open>kwargs\<close> are the keyword arguments, of which only
  \<open>suffix\<close> is read. \<^verbatim>\<open>torch.zeros((num_cameras, 6))\<close> refuses a negative size.\<close>

definition init ::
  "config \<Rightarrow> int \<Rightarrow> device \<Rightarrow> (device \<times> int list) option \<Rightarrow> (string \<rightharpoonup> string)
     \<Rightarrow> error + camera_optimizer" where
  "init cfg n dev nt kwargs =
     (let cfg1 = (if penalty_scale cfg < 0 then cfg\<lparr>mode := ''off''\<rparr> else cfg);
          sfx = (case kwargs ''suffix'' of None \<Rightarrow> '''' | Some s \<Rightarrow> s);
          flt = (case nt of None \<Rightarrow> None | Some (d, xs) \<Rightarrow> Some (dev, camera_filter n xs));
          self = (\<lambda>p. \<lparr>config = cfg1, num_cameras = n, device = dev,
                        non_trainable_camera_indices = nt, pose_adjustment = p,
                        suffix = sfx, non_trainable_camera_filter = flt\<rparr>)
      in if mode cfg1 = ''off'' then Inr (self None)
         else if mode cfg1 = ''SO3xR3'' \<or> mode cfg1 = ''SE3'' then
           (if n < 0 then Inl RuntimeError
            else Inr (self (Some (replicate (nat n) zero6))))
         else if mode cfg1 = ''shared_SO3xR3'' then Inr (self (Some [zero6]))
         else Inl (AssertNever (mode cfg1)))"

subsection \<open>forward\<close>

text \<open>The mode dispatch of \<^verbatim>\<open>forward\<close>: the list \<open>outputs\<close> after it.
  \<^verbatim>\<open>t.tile((n, 1, 1))\<close> repeats the whole batch \<open>n\<close> times.\<close>

definition lie_outputs ::
  "helpers \<Rightarrow> camera_optimizer \<Rightarrow> int tensor \<Rightarrow> error + mat34 list list" where
  "lie_outputs H self indices =
     (if mode (config self) = ''off'' then Inr []
      else if mode (config self) = ''SO3xR3'' then
        (case pose_adjustment self of
           None \<Rightarrow> Inl (AttributeError ''pose_adjustment'')
         | Some P \<Rightarrow>
             (case index_t P indices of
                Inl e \<Rightarrow> Inl e
              | Inr rows \<Rightarrow>
                  (case batched (exp_map_SO3xR3 H) rows of
                     Inl e \<Rightarrow> Inl e
                   | Inr ms \<Rightarrow> Inr [ms])))
      else if mode (config self) = ''SE3'' then
        (case pose_adjustment self of
           None \<Rightarrow> Inl (AttributeError ''pose_adjustment'')
         | Some P \<Rightarrow>
             (case index_t P indices of
                Inl e \<Rightarrow> Inl e
              | Inr rows \<Rightarrow>
                  (case batched (exp_map_SE3 H) rows of
                     Inl e \<Rightarrow> Inl e
                   | Inr ms \<Rightarrow> Inr [ms])))
      else if mode (config self) = ''shared_SO3xR3'' then
        (case pose_adjustment self of
           None \<Rightarrow> Inl (AttributeError ''pose_adjustment'')
         | Some P \<Rightarrow>
             (case batched (exp_map_SO3xR3 H) (Vector P) of
                Inl e \<Rightarrow> Inl e
              | Inr ms \<Rightarrow>
                  (case shape0 indices of
                     Inl e \<Rightarrow> Inl e
                   | Inr n \<Rightarrow> Inr [concat (replicate n ms)])))
      else Inl (AssertNever (mode (config self))))"

text \<open>The last two lines of \<^verbatim>\<open>forward\<close>: the identity broadcast when nothing was
  appended, else \<^verbatim>\<open>functools.reduce(pose_utils.multiply, outputs)\<close>.\<close>

fun forward_return :: "helpers \<Rightarrow> camera_optimizer \<Rightarrow> int tensor \<Rightarrow> mat34 list list
    \<Rightarrow> error + mat34 list" where
  "forward_return H self indices [] =
     (case shape0 indices of Inl e \<Rightarrow> Inl e | Inr n \<Rightarrow> Inr (replicate n eye34))"
| "forward_return H self indices (out # rest) = Inr (foldl (multiply H) out rest)"

text \<open>\<^verbatim>\<open>CameraOptimizer.forward\<close>: the optimizer after the call (the two non-trainable
  tensors may have been moved to the device of the parameters), and the returned batch or
  the exception raised.\<close>

definition forward ::
  "helpers \<Rightarrow> camera_optimizer \<Rightarrow> int tensor \<Rightarrow> camera_optimizer \<times> (error + mat34 list)" where
  "forward H self indices =
     (case lie_outputs H self indices of
        Inl e \<Rightarrow> (self, Inl e)
      | Inr outputs \<Rightarrow>
          (case non_trainable_camera_indices self of
             None \<Rightarrow> (self, forward_return H self indices outputs)
           | Some (d, nt) \<Rightarrow>
               (case pose_adjustment self of
                  None \<Rightarrow> (self, Inl (AttributeError ''pose_adjustment''))
                | Some P \<Rightarrow>
                    (let self1 = (if d \<noteq> device self
                                  then self\<lparr>non_trainable_camera_indices := Some (device self, nt)\<rparr>
                                  else self)
                     in case non_trainable_camera_filter self1 of
                          None \<Rightarrow> (self1, Inl (AttributeError ''device''))
                        | Some (fd, flt) \<Rightarrow>
                            (let self2 = (if fd \<noteq> device self1
                                          then self1\<lparr>non_trainable_camera_filter :=
                                                       Some (device self1, flt)\<rparr>
                                          else self1)
                             in case index_t flt indices of
                                  Inl e \<Rightarrow> (self2, Inl e)
                                | Inr msk \<Rightarrow>
                                    (case outputs of
                                       [] \<Rightarrow> (self2, Inl IndexError)
                                     | out # rest \<Rightarrow>
                                         (case mask_assign out msk eye34 of
                                            Inl e \<Rightarrow> (self2, Inl e)
                                          | Inr out' \<Rightarrow>
                                              (self2, forward_return H self2 indices
                                                        (out' # rest)))))))))"

text \<open>\<^verbatim>\<open>get_correction_matrices\<close>: \<^verbatim>\<open>self(torch.arange(0, self.num_cameras).long())\<close>.\<close>

definition get_correction_matrices ::
  "helpers \<Rightarrow> camera_optimizer \<Rightarrow> camera_optimizer \<times> (error + mat34 list)" where
  "get_correction_matrices H self = forward H self (Vector [0..num_cameras self - 1])"

subsection \<open>apply_to_raybundle\<close>

text \<open>A \<^verbatim>\<open>RayBundle\<close> as far as the optimizer reads it: \<open>origins\<close> of shape \<open>[N, 3]\<close>,
  \<open>directions\<close> of shape \<open>[N, 3]\<close> (or \<open>[3]\<close>, once a batch of one has been squeezed) and
  \<open>camera_indices\<close> of shape \<open>[N, 1]\<close>, given by its \<open>N\<close> entries.\<close>

record raybundle =
  origins :: "vec3 list"
  directions :: "vec3 tensor"
  camera_indices :: "int list"

text \<open>\<^verbatim>\<open>a + b\<close> on shapes \<open>[n, 3]\<close> and \<open>[m, 3]\<close>: a batch of one is broadcast, other unequal
  sizes are refused.\<close>

definition add_broadcast :: "vec3 list \<Rightarrow> vec3 list \<Rightarrow> error + vec3 list" where
  "add_broadcast xs ys =
     (if length xs = length ys then Inr (map (\<lambda>(x, y). vadd x y) (zip xs ys))
      else if length xs = 1 then Inr (map (\<lambda>y. vadd (hd xs) y) ys)
      else if length ys = 1 then Inr (map (\<lambda>x. vadd x (hd ys)) xs)
      else Inl RuntimeError)"

text \<open>\<^verbatim>\<open>torch.bmm(rs, d[..., None])\<close>: both arguments must be three-dimensional with the
  same batch size; the result has shape \<open>[N, 3, 1]\<close> and is given by its \<open>N\<close> columns.\<close>

fun bmm_vec :: "mat33 list \<Rightarrow> vec3 tensor \<Rightarrow> error + vec3 list" where
  "bmm_vec rs (Scalar d) = Inl RuntimeError"
| "bmm_vec rs (Vector ds) =
     (if length rs \<noteq> length ds then Inl RuntimeError
      else Inr (map (\<lambda>(r, d). matvec r d) (zip rs ds)))"

text \<open>\<^verbatim>\<open>CameraOptimizer.apply_to_raybundle\<close>: the optimizer and the ray bundle after the
  call, and the exception raised, if any.\<close>

definition apply_to_raybundle ::
  "helpers \<Rightarrow> camera_optimizer \<Rightarrow> raybundle \<Rightarrow> camera_optimizer \<times> raybundle \<times> error option" where
  "apply_to_raybundle H self rb =
     (if mode (config self) \<noteq> ''off'' then
        (case forward H self (squeeze (camera_indices rb)) of
           (self', Inl e) \<Rightarrow> (self', rb, Some e)
         | (self', Inr correction_matrices) \<Rightarrow>
             (case add_broadcast (origins rb) (map translation_col correction_matrices) of
                Inl e \<Rightarrow> (self', rb, Some e)
              | Inr os \<Rightarrow>
                  (let rb1 = rb\<lparr>origins := os\<rparr>
                   in case bmm_vec (map rotation_block correction_matrices) (directions rb1) of
                        Inl e \<Rightarrow> (self', rb1, Some e)
                      | Inr ds \<Rightarrow> (self', rb1\<lparr>directions := squeeze ds\<rparr>, None))))
      else (self, rb, None))"

subsection \<open>apply_to_camera\<close>

text \<open>A \<^verbatim>\<open>Cameras\<close> object as far as the optimizer reads it: \<open>camera_to_worlds\<close> of shape
  \<open>[B, r, 4]\<close> (a batch of matrices, each a list of rows of four) and the optional
  metadata dictionary.\<close>

record cameras =
  camera_to_worlds :: "row4 list list"
  metadata :: "(string \<rightharpoonup> int) option"

text \<open>\<^verbatim>\<open>torch.cat([adj, [[[0, 0, 0, 1]]]], dim=1)\<close> on one matrix of the batch.\<close>

fun cat_row :: "mat34 \<Rightarrow> mat44" where
  "cat_row (r0, r1, r2) = (r0, r1, r2, (0, 0, 0, 1))"

fun row_times :: "row4 \<Rightarrow> mat44 \<Rightarrow> row4" where
  "row_times (x0, x1, x2, x3)
     ((a0, a1, a2, a3), (b0, b1, b2, b3), (c0, c1, c2, c3), (d0, d1, d2, d3)) =
     (x0 * a0 + x1 * b0 + x2 * c0 + x3 * d0,
      x0 * a1 + x1 * b1 + x2 * c1 + x3 * d1,
      x0 * a2 + x1 * b2 + x2 * c2 + x3 * d2,
      x0 * a3 + x1 * b3 + x2 * c3 + x3 * d3)"

text \<open>\<^verbatim>\<open>torch.bmm(c2w, adj)\<close>: the batch sizes must agree.\<close>

definition bmm_pose :: "row4 list list \<Rightarrow> mat44 list \<Rightarrow> error + row4 list list" where
  "bmm_pose cs adjs =
     (if length cs \<noteq> length adjs then Inl RuntimeError
      else Inr (map (\<lambda>(c, a). map (\<lambda>r. row_times r a) c) (zip cs adjs)))"

text \<open>\<^verbatim>\<open>CameraOptimizer.apply_to_camera\<close>: the optimizer and the camera after the call, and
  the exception raised, if any.\<close>

definition apply_to_camera ::
  "helpers \<Rightarrow> camera_optimizer \<Rightarrow> cameras \<Rightarrow> camera_optimizer \<times> cameras \<times> error option" where
  "apply_to_camera H self camera =
     (if mode (config self) \<noteq> ''off'' then
        (case metadata camera of
           None \<Rightarrow> (self, camera, Some (AssertionError ''Must provide id of camera in its metadata''))
         | Some md \<Rightarrow>
             (case md ''cam_idx'' of
                None \<Rightarrow>
                  (self, camera, Some (AssertionError ''Must provide id of camera in its metadata''))
              | Some camera_idx \<Rightarrow>
                  (case forward H self (Vector [camera_idx]) of
                     (self', Inl e) \<Rightarrow> (self', camera, Some e)
                   | (self', Inr adj) \<Rightarrow>
                       (case bmm_pose (camera_to_worlds camera) (map cat_row adj) of
                          Inl e \<Rightarrow> (self', camera, Some e)
                        | Inr c2w \<Rightarrow> (self', camera\<lparr>camera_to_worlds := c2w\<rparr>, None)))))
      else (self, camera, None))"

subsection \<open>get_loss_dict\<close>

text \<open>
  The regularization term is computed in the arithmetic of the parameter tensor (float32
  for the parameters that \<open>init\<close> creates), which rounds, underflows and overflows. The
  four tensor operations that \<^verbatim>\<open>get_loss_dict\<close> uses are therefore a parameter of the
  model: \<open>t_norm\<close> is \<^verbatim>\<open>.norm(dim=-1)\<close> on one row of three components, \<open>t_mean\<close> is
  \<^verbatim>\<open>.mean()\<close>, \<open>t_mul\<close> multiplies a scalar tensor by a Python number of the
  configuration and \<open>t_add\<close> adds two scalar tensors. The stored parameter values are
  themselves real numbers.
\<close>

record 'f arithmetic =
  t_norm :: "vec3 \<Rightarrow> 'f"
  t_mean :: "'f list \<Rightarrow> 'f"
  t_mul :: "'f \<Rightarrow> real \<Rightarrow> 'f"
  t_add :: "'f \<Rightarrow> 'f \<Rightarrow> 'f"

text \<open>\<^verbatim>\<open>CameraOptimizer.get_loss_dict\<close>: the loss dictionary after the call, or the
  exception raised.\<close>

definition get_loss_dict ::
  "'f arithmetic \<Rightarrow> camera_optimizer \<Rightarrow> (string \<rightharpoonup> 'f) \<Rightarrow> error + (string \<rightharpoonup> 'f)" where
  "get_loss_dict A self loss_dict =
     (if mode (config self) \<noteq> ''off'' then
        (case pose_adjustment self of
           None \<Rightarrow> Inl (AttributeError ''pose_adjustment'')
         | Some P \<Rightarrow>
             Inr (loss_dict(''camera_opt_regularizer'' @ suffix self \<mapsto>
               t_mul A
                 (t_add A
                    (t_mul A (t_mean A (map (\<lambda>r. t_norm A (first3 r)) P))
                       (trans_l2_penalty (config self)))
                    (t_mul A (t_mean A (map (\<lambda>r. t_norm A (last3 r)) P))
                       (rot_l2_penalty (config self))))
                 (penalty_scale (config self)))))
      else Inr loss_dict)"

text \<open>Exact arithmetic: the operations over the real numbers, without rounding, underflow
  or overflow. A scalar is a number, or the NaN that the mean of an empty tensor (zero
  divided by zero) is and that every later operation hands on.\<close>

datatype scalar = Num real | NaN

fun norm3 :: "vec3 \<Rightarrow> real" where
  "norm3 (a, b, c) = sqrt (a * a + b * b + c * c)"

fun smul :: "scalar \<Rightarrow> real \<Rightarrow> scalar" where
  "smul (Num x) c = Num (x * c)"
| "smul NaN c = NaN"

fun sadd :: "scalar \<Rightarrow> scalar \<Rightarrow> scalar" where
  "sadd (Num x) (Num y) = Num (x + y)"
| "sadd a b = NaN"

definition smean :: "scalar list \<Rightarrow> scalar" where
  "smean xs =
     (if xs = [] then NaN
      else (case foldr sadd xs (Num 0) of
              Num s \<Rightarrow> Num (s / real (length xs))
            | NaN \<Rightarrow> NaN))"

definition exact_arithmetic :: "scalar arithmetic" where
  "exact_arithmetic =
     \<lparr>t_norm = (\<lambda>v. Num (norm3 v)), t_mean = smean, t_mul = smul, t_add = sadd\<rparr>"


subsection \<open>Instances\<close>

text \<open>What \<^verbatim>\<open>__init__\<close> establishes and the external optimizer, which only changes the
  values of the parameter rows, keeps: one of the four modes, no parameters in mode off,
  one row per camera in the per-camera modes, a single row in the shared mode, and the
  filter derived from the non-trainable indices.\<close>

definition constructed :: "camera_optimizer \<Rightarrow> bool" where
  "constructed self =
     ((case pose_adjustment self of
         None \<Rightarrow> mode (config self) = ''off''
       | Some P \<Rightarrow>
           ((mode (config self) = ''SO3xR3'' \<or> mode (config self) = ''SE3'')
              \<and> 0 \<le> num_cameras self \<and> length P = nat (num_cameras self))
           \<or> (mode (config self) = ''shared_SO3xR3'' \<and> length P = 1))
      \<and> (case non_trainable_camera_indices self of
            None \<Rightarrow> non_trainable_camera_filter self = None
          | Some (d, xs) \<Rightarrow>
              (case non_trainable_camera_filter self of
                 None \<Rightarrow> False
               | Some (fd, flt) \<Rightarrow> flt = camera_filter (num_cameras self) xs)))"

text \<open>A batch of camera indices with values in \<open>[0, num_cameras)\<close>.\<close>

definition in_range :: "camera_optimizer \<Rightarrow> int list \<Rightarrow> bool" where
  "in_range self is = list_all (\<lambda>i. 0 \<le> i \<and> i < num_cameras self) is"

text \<open>Whether a camera index is in the non-trainable set of the instance.\<close>

definition non_trainable :: "camera_optimizer \<Rightarrow> int \<Rightarrow> bool" where
  "non_trainable self i =
     (case non_trainable_camera_indices self of None \<Rightarrow> False | Some (d, xs) \<Rightarrow> i \<in> set xs)"

text \<open>The row that the mode dispatch of \<open>forward\<close> computes for camera index \<open>i\<close> of a
  constructed instance with parameters: the Lie map of the mode on row \<open>i\<close>, or on the
  single shared row.\<close>

definition lie_row :: "helpers \<Rightarrow> camera_optimizer \<Rightarrow> int \<Rightarrow> mat34" where
  "lie_row H self i =
     (case pose_adjustment self of
        None \<Rightarrow> eye34
      | Some P \<Rightarrow>
          (if mode (config self) = ''SE3'' then exp_map_SE3 H (P ! nat i)
           else if mode (config self) = ''shared_SO3xR3'' then exp_map_SO3xR3 H (P ! 0)
           else exp_map_SO3xR3 H (P ! nat i)))"

subsection \<open>The Lie maps of the spec\<close>

fun skew :: "vec3 \<Rightarrow> mat33" where
  "skew (a, b, c) = ((0, - c, b), (c, 0, - a), (- b, a, 0))"

definition eye33 :: mat33 where
  "eye33 = ((1, 0, 0), (0, 1, 0), (0, 0, 1))"

fun vscale :: "real \<Rightarrow> vec3 \<Rightarrow> vec3" where
  "vscale s (a, b, c) = (s * a, s * b, s * c)"

fun mscale :: "real \<Rightarrow> mat33 \<Rightarrow> mat33" where
  "mscale s (r0, r1, r2) = (vscale s r0, vscale s r1, vscale s r2)"

fun madd :: "mat33 \<Rightarrow> mat33 \<Rightarrow> mat33" where
  "madd (r0, r1, r2) (q0, q1, q2) = (vadd r0 q0, vadd r1 q1, vadd r2 q2)"

fun mcol :: "mat33 \<Rightarrow> nat \<Rightarrow> vec3" where
  "mcol ((a0, a1, a2), (b0, b1, b2), (c0, c1, c2)) k =
     (if k = 0 then (a0, b0, c0) else if k = 1 then (a1, b1, c1) else (a2, b2, c2))"

fun mmul :: "mat33 \<Rightarrow> mat33 \<Rightarrow> mat33" where
  "mmul (r0, r1, r2) B =
     ((dot3 r0 (mcol B 0), dot3 r0 (mcol B 1), dot3 r0 (mcol B 2)),
      (dot3 r1 (mcol B 0), dot3 r1 (mcol B 1), dot3 r1 (mcol B 2)),
      (dot3 r2 (mcol B 0), dot3 r2 (mcol B 1), dot3 r2 (mcol B 2)))"

fun attach :: "mat33 \<Rightarrow> vec3 \<Rightarrow> mat34" where
  "attach ((a0, a1, a2), (b0, b1, b2), (c0, c1, c2)) (t0, t1, t2) =
     ((a0, a1, a2, t0), (b0, b1, b2, t1), (c0, c1, c2, t2))"

text \<open>
  Modelled from the spec: the coefficients of the closed-form exponential maps, whose code
  (lie_groups.py) is missing. For the squared rotation angle \<open>t\<close> they are
  \<open>sin \<theta> / \<theta>\<close>, \<open>(1 - cos \<theta>) / \<theta>\<^sup>2\<close> and \<open>(\<theta> - sin \<theta>) / \<theta>\<^sup>3\<close>, "using a series expansion or
  threshold-based branch near zero angle": below the threshold \<open>eps\<close> the leading terms of
  their series are taken and nothing is divided by the angle.
\<close>

definition rodrigues :: "real \<Rightarrow> real \<Rightarrow> real \<times> real \<times> real" where
  "rodrigues eps t =
     (if t < eps then (1 - t / 6, 1 / 2 - t / 24, 1 / 6 - t / 120)
      else (sin (sqrt t) / sqrt t, (1 - cos (sqrt t)) / t, (sqrt t - sin (sqrt t)) / (t * sqrt t)))"

text \<open>
  Modelled from the spec: "output rotation = exp(skew(v_rot))", by the Rodrigues formula
  \<open>I + A K + B K\<^sup>2\<close> with \<open>K = skew(v_rot)\<close>.
\<close>

definition exp_so3 :: "real \<Rightarrow> vec3 \<Rightarrow> mat33" where
  "exp_so3 eps w =
     (case rodrigues eps (dot3 w w) of
        (A, B, C) \<Rightarrow> madd eye33 (madd (mscale A (skew w)) (mscale B (mmul (skew w) (skew w)))))"

text \<open>
  Modelled from the spec: \<open>DecoupledExponential(v)\<close>, "output rotation = exp(skew(v_rot)),
  output translation = v_trans (no scaling by the rotation's differential)"; in a
  parameter row the "first 3 components = translation generator, last 3 = rotation
  generator".
\<close>

definition DecoupledExponential :: "real \<Rightarrow> vec6 \<Rightarrow> mat34" where
  "DecoupledExponential eps v = attach (exp_so3 eps (last3 v)) (first3 v)"

text \<open>
  Modelled from the spec: \<open>CoupledExponential(v)\<close>, "the true SE3 exponential map, where
  translation is coupled through the rotation's differential": the translation is
  \<open>(I + B K + C K\<^sup>2) v_trans\<close>.
\<close>

definition CoupledExponential :: "real \<Rightarrow> vec6 \<Rightarrow> mat34" where
  "CoupledExponential eps v =
     (case rodrigues eps (dot3 (last3 v) (last3 v)) of
        (A, B, C) \<Rightarrow>
          attach (exp_so3 eps (last3 v))
            (matvec
               (madd eye33
                  (madd (mscale B (skew (last3 v)))
                        (mscale C (mmul (skew (last3 v)) (skew (last3 v))))))
               (first3 v)))"

text \<open>The helpers with the Lie maps of the spec. \<open>multiply\<close> is never reached by
  \<open>forward\<close>, whose list of outputs holds at most one batch; the spec does not describe
  it, and it is left as the projection on its first argument.\<close>

definition spec_helpers :: "real \<Rightarrow> helpers" where
  "spec_helpers eps =
     \<lparr>exp_map_SO3xR3 = DecoupledExponential eps,
      exp_map_SE3 = CoupledExponential eps,
      multiply = (\<lambda>a b. a)\<rparr>"

subsection \<open>Example instances\<close>

text \<open>The configuration with the default penalties of \<^verbatim>\<open>CameraOptimizerConfig\<close>
  (\<open>1e-2\<close>, \<open>1e-3\<close>, scale \<open>1\<close>) and a given mode.\<close>

definition default_config :: "string \<Rightarrow> config" where
  "default_config m =
     \<lparr>mode = m, trans_l2_penalty = 1 / 100, rot_l2_penalty = 1 / 1000, penalty_scale = 1\<rparr>"

text \<open>Three cameras, of which camera 1 is non-trainable, with given mode and parameters
  (\<open>None\<close> for mode off).\<close>

definition example_optimizer :: "string \<Rightarrow> vec6 list option \<Rightarrow> camera_optimizer" where
  "example_optimizer m P =
     \<lparr>config = default_config m, num_cameras = 3, device = ''cpu'',
      non_trainable_camera_indices = Some (''cpu'', [1]), pose_adjustment = P,
      suffix = [], non_trainable_camera_filter = Some (''cpu'', [False, True, False])\<rparr>"

text \<open>The same without a non-trainable set.\<close>

definition example_trainable :: "string \<Rightarrow> vec6 list option \<Rightarrow> camera_optimizer" where
  "example_trainable m P =
     \<lparr>config = default_config m, num_cameras = 3, device = ''cpu'',
      non_trainable_camera_indices = None, pose_adjustment = P,
      suffix = [], non_trainable_camera_filter = None\<rparr>"

section \<open>Indexing and the batch returned by forward\<close>

lemma gather_in_range:
  "list_all (\<lambda>i. 0 \<le> i \<and> i < int (length xs)) is
     \<Longrightarrow> gather xs is = Inr (map (\<lambda>i. xs ! nat i) is)"
  by (induction "is") (simp_all add: index1_def)

lemma camera_filter_length: "length (camera_filter n xs) = nat n"
  by (simp add: camera_filter_def)

lemma camera_filter_nth:
  "0 \<le> i \<Longrightarrow> i < n \<Longrightarrow> camera_filter n xs ! nat i = (i \<in> set xs)"
  by (simp add: camera_filter_def)

lemma gather_camera_filter:
  "list_all (\<lambda>i. 0 \<le> i \<and> i < n) is
     \<Longrightarrow> gather (camera_filter n xs) is = Inr (map (\<lambda>i. i \<in> set xs) is)"
proof -
  assume a: "list_all (\<lambda>i. 0 \<le> i \<and> i < n) is"
  then have "list_all (\<lambda>i. 0 \<le> i \<and> i < int (length (camera_filter n xs))) is"
    by (auto simp: list_all_iff camera_filter_length)
  then have "gather (camera_filter n xs) is = Inr (map (\<lambda>i. camera_filter n xs ! nat i) is)"
    by (rule gather_in_range)
  moreover have "map (\<lambda>i. camera_filter n xs ! nat i) is = map (\<lambda>i. i \<in> set xs) is"
    using a by (auto simp: list_all_iff camera_filter_nth)
  ultimately show ?thesis by simp
qed

lemma concat_replicate_one: "concat (replicate n [x]) = replicate n x"
  by (induction n) simp_all

lemma mask_zip_map:
  "map (\<lambda>(x, b). if b then m else x) (zip (map f is) (map g is))
     = map (\<lambda>i. if g i then m else f i) is"
  by (induction "is") simp_all

lemma map_const_replicate: "map (\<lambda>i. c) is = replicate (length is) c"
  by (induction "is") simp_all

lemma lie_outputs_per_camera:
  assumes "pose_adjustment self = Some P" "length P = nat (num_cameras self)"
    "mode (config self) = ''SO3xR3'' \<or> mode (config self) = ''SE3''"
    "in_range self is"
  shows "lie_outputs H self (Vector is) = Inr [map (lie_row H self) is]"
proof -
  have "list_all (\<lambda>i. 0 \<le> i \<and> i < int (length P)) is"
    using assms(2,4) by (auto simp: in_range_def list_all_iff)
  then have "gather P is = Inr (map (\<lambda>i. P ! nat i) is)"
    by (rule gather_in_range)
  then show ?thesis
    using assms(1,3) by (auto simp: lie_outputs_def lie_row_def)
qed

lemma lie_outputs_shared:
  assumes "pose_adjustment self = Some P" "length P = 1"
    "mode (config self) = ''shared_SO3xR3''"
  shows "lie_outputs H self (Vector is) = Inr [map (lie_row H self) is]"
proof -
  obtain p where P: "P = [p]"
    using assms(2) by (cases P) auto
  have "lie_row H self = (\<lambda>i. exp_map_SO3xR3 H p)"
    using assms(1,3) by (simp add: lie_row_def P fun_eq_iff)
  then show ?thesis
    using assms(1,3)
    by (simp add: lie_outputs_def P concat_replicate_one map_const_replicate)
qed

lemma lie_outputs_constructed:
  assumes "constructed self" "mode (config self) \<noteq> ''off''" "in_range self is"
  shows "lie_outputs H self (Vector is) = Inr [map (lie_row H self) is]"
proof (cases "pose_adjustment self")
  case None
  then show ?thesis using assms(1,2) by (simp add: constructed_def)
next
  case (Some P)
  then consider
      "(mode (config self) = ''SO3xR3'' \<or> mode (config self) = ''SE3'')
         \<and> length P = nat (num_cameras self)"
    | "mode (config self) = ''shared_SO3xR3'' \<and> length P = 1"
    using assms(1) by (auto simp: constructed_def)
  then show ?thesis
  proof cases
    case 1
    then show ?thesis using Some assms(3) by (simp add: lie_outputs_per_camera)
  next
    case 2
    then show ?thesis using Some by (simp add: lie_outputs_shared)
  qed
qed

lemma forward_vector:
  assumes "constructed self" "mode (config self) \<noteq> ''off''" "in_range self is"
  shows "snd (forward H self (Vector is))
           = Inr (map (\<lambda>i. if non_trainable self i then eye34 else lie_row H self i) is)"
proof (cases "non_trainable_camera_indices self")
  case None
  then show ?thesis
    using lie_outputs_constructed[OF assms, of H]
    by (simp add: forward_def non_trainable_def)
next
  case (Some dn)
  obtain d xs where dn: "dn = (d, xs)" by (cases dn)
  obtain fd where flt: "non_trainable_camera_filter self = Some (fd, camera_filter (num_cameras self) xs)"
    using assms(1) Some dn by (auto simp: constructed_def split: option.splits)
  obtain P where P: "pose_adjustment self = Some P"
    using assms(1,2) by (auto simp: constructed_def split: option.splits)
  have g: "gather (camera_filter (num_cameras self) xs) is = Inr (map (\<lambda>i. i \<in> set xs) is)"
    using assms(3) by (simp add: in_range_def gather_camera_filter)
  show ?thesis
    using lie_outputs_constructed[OF assms, of H] Some dn flt P g
    by (simp add: forward_def non_trainable_def Let_def mask_zip_map)
qed

lemma forward_config: "config (fst (forward H self idx)) = config self"
  by (auto simp: forward_def Let_def split: sum.splits option.splits list.splits prod.splits)

lemma forward_shared_trainable:
  assumes "constructed self" "mode (config self) = ''shared_SO3xR3''"
    "non_trainable_camera_indices self = None"
  shows "snd (forward H self (Vector is)) = Inr (map (lie_row H self) is)"
proof -
  obtain P where P: "pose_adjustment self = Some P" "length P = 1"
    using assms(1,2) by (auto simp: constructed_def split: option.splits)
  show ?thesis
    using lie_outputs_shared[OF P assms(2), of H "is"] assms(3)
    by (simp add: forward_def)
qed

lemma lie_row_shared:
  "mode (config self) = ''shared_SO3xR3'' \<Longrightarrow> lie_row H self i = lie_row H self j"
  by (simp add: lie_row_def split: option.splits)

lemma camera_filter_3: "camera_filter 3 [1] = [False, True, False]"
  by code_simp

lemma example_constructed:
  "constructed (example_optimizer ''SO3xR3'' (Some [a, b, c]))"
  "constructed (example_optimizer ''SE3'' (Some [a, b, c]))"
  "constructed (example_optimizer ''shared_SO3xR3'' (Some [a]))"
  "constructed (example_optimizer ''off'' None)"
  by (simp_all add: constructed_def example_optimizer_def default_config_def camera_filter_3)

section \<open>Non-trainable cameras\<close>

text \<open>
  C2: for an instance in a mode other than off that was constructed with a set of
  non-trainable camera indices, whatever the values of the correction parameters, every
  batch position of \<open>forward\<close> whose camera index is in the set holds the exact identity
  3x4 transform, and every other position holds the row that the Lie-map step gives it:
  the row returned by the same instance without the non-trainable set.
\<close>

theorem non_trainable_rows_identity:
  assumes "constructed self" "mode (config self) \<noteq> ''off''"
    "non_trainable_camera_indices self = Some (d, xs)" "in_range self is"
  shows "\<exists>ms us. snd (forward H self (Vector is)) = Inr ms
           \<and> snd (forward H (self\<lparr>non_trainable_camera_indices := None,
                                   non_trainable_camera_filter := None\<rparr>) (Vector is)) = Inr us
           \<and> length ms = length is \<and> length us = length is
           \<and> (\<forall>k < length is. ms ! k = (if is ! k \<in> set xs then eye34 else us ! k))"
proof -
  let ?t = "self\<lparr>non_trainable_camera_indices := None, non_trainable_camera_filter := None\<rparr>"
  have t: "constructed ?t" "mode (config ?t) \<noteq> ''off''" "in_range ?t is"
    using assms(1,2,4) by (auto simp: constructed_def in_range_def split: option.splits)
  have row: "lie_row H ?t = lie_row H self"
    by (simp add: lie_row_def fun_eq_iff split: option.splits)
  have nt: "\<And>i. non_trainable ?t i = False" "\<And>i. non_trainable self i = (i \<in> set xs)"
    using assms(3) by (simp_all add: non_trainable_def)
  have m: "snd (forward H self (Vector is))
             = Inr (map (\<lambda>i. if i \<in> set xs then eye34 else lie_row H self i) is)"
    using forward_vector[OF assms(1,2,4), of H] by (simp add: nt)
  have u: "snd (forward H ?t (Vector is)) = Inr (map (lie_row H self) is)"
    using forward_vector[OF t, of H] by (simp add: nt row)
  show ?thesis
    unfolding m u by simp
qed

theorem non_trainable_rows_identity_witness:
  "\<exists>ms us.
     snd (forward (spec_helpers (1 / 100)) (example_optimizer ''SO3xR3'' (Some [(1, 2, 3, 4, 5, 6), (6, 5, 4, 3, 2, 1), zero6]))
            (Vector [0, 1, 2, 1])) = Inr ms
     \<and> snd (forward (spec_helpers (1 / 100))
              ((example_optimizer ''SO3xR3'' (Some [(1, 2, 3, 4, 5, 6), (6, 5, 4, 3, 2, 1), zero6]))
                 \<lparr>non_trainable_camera_indices := None, non_trainable_camera_filter := None\<rparr>)
              (Vector [0, 1, 2, 1])) = Inr us
     \<and> length ms = length [0 :: int, 1, 2, 1] \<and> length us = length [0 :: int, 1, 2, 1]
     \<and> (\<forall>k < length [0 :: int, 1, 2, 1].
           ms ! k = (if [0 :: int, 1, 2, 1] ! k \<in> set [1] then eye34 else us ! k))"
proof -
  let ?s = "example_optimizer ''SO3xR3'' (Some [(1, 2, 3, 4, 5, 6), (6, 5, 4, 3, 2, 1), zero6])"
  have c: "constructed ?s" by (rule example_constructed)
  have m: "mode (config ?s) \<noteq> ''off''"
    by (simp add: example_optimizer_def default_config_def)
  have n: "non_trainable_camera_indices ?s = Some (''cpu'', [1])"
    by (simp add: example_optimizer_def)
  have r: "in_range ?s [0, 1, 2, 1]"
    by (simp add: in_range_def example_optimizer_def)
  show ?thesis
    by (rule non_trainable_rows_identity[OF c m n r])
qed

section \<open>The per-camera modes\<close>

text \<open>
  C10: in a per-camera mode (SO3xR3 or SE3), for any parameter values and any
  non-trainable set, the row that \<open>forward\<close> returns at a batch position depends on the
  camera index at that position and on the instance only: two positions, of the same batch
  or of two batches, that hold the same camera index hold equal rows.
\<close>

theorem per_camera_row_depends_on_index:
  assumes "constructed self"
    "mode (config self) = ''SO3xR3'' \<or> mode (config self) = ''SE3''"
    "in_range self is" "in_range self js"
    "j < length is" "k < length js" "is ! j = js ! k"
  shows "\<exists>ms ns. snd (forward H self (Vector is)) = Inr ms
           \<and> snd (forward H self (Vector js)) = Inr ns
           \<and> length ms = length is \<and> length ns = length js
           \<and> ms ! j = ns ! k"
proof -
  have off: "mode (config self) \<noteq> ''off''"
    using assms(2) by auto
  show ?thesis
    using forward_vector[OF assms(1) off assms(3), of H]
      forward_vector[OF assms(1) off assms(4), of H] assms(5-7)
    by simp
qed

theorem per_camera_row_depends_on_index_witness:
  "\<exists>ms ns.
     snd (forward (spec_helpers (1 / 100))
            (example_optimizer ''SE3'' (Some [(1, 2, 3, 4, 5, 6), (6, 5, 4, 3, 2, 1), zero6]))
            (Vector [2, 0, 2])) = Inr ms
     \<and> snd (forward (spec_helpers (1 / 100))
            (example_optimizer ''SE3'' (Some [(1, 2, 3, 4, 5, 6), (6, 5, 4, 3, 2, 1), zero6]))
            (Vector [1, 2])) = Inr ns
     \<and> length ms = length [2 :: int, 0, 2] \<and> length ns = length [1 :: int, 2]
     \<and> ms ! 0 = ns ! 1"
proof -
  let ?s = "example_optimizer ''SE3'' (Some [(1, 2, 3, 4, 5, 6), (6, 5, 4, 3, 2, 1), zero6])"
  have c: "constructed ?s" by (rule example_constructed)
  have m: "mode (config ?s) = ''SO3xR3'' \<or> mode (config ?s) = ''SE3''"
    by (simp add: example_optimizer_def default_config_def)
  have r: "in_range ?s [2, 0, 2]" "in_range ?s [1, 2]"
    by (simp_all add: in_range_def example_optimizer_def)
  have p: "0 < length [2 :: int, 0, 2]" "1 < length [1 :: int, 2]" "[2 :: int, 0, 2] ! 0 = [1, 2] ! 1"
    by simp_all
  show ?thesis
    by (rule per_camera_row_depends_on_index[OF c m r p])
qed

section \<open>The shared mode\<close>

lemma exp_so3_zero_rotation: "0 < eps \<Longrightarrow> exp_so3 eps (0, 0, 0) = eye33"
  by (simp add: exp_so3_def rodrigues_def eye33_def)

lemma DecoupledExponential_translation:
  "0 < eps \<Longrightarrow> DecoupledExponential eps (a, b, c, 0, 0, 0) = ((1, 0, 0, a), (0, 1, 0, b), (0, 0, 1, c))"
  by (simp add: DecoupledExponential_def exp_so3_zero_rotation eye33_def)

text \<open>
  C3, as amended: in mode shared_SO3xR3, for any value of the single shared parameter row,
  \<open>forward\<close> returns equal matrices at any two batch positions whose camera indices are
  both inside or both outside the non-trainable set; with no non-trainable set configured
  this is any two positions, whatever the indices.
\<close>

theorem shared_rows_equal:
  assumes "constructed self" "mode (config self) = ''shared_SO3xR3''"
    "non_trainable_camera_indices self = None \<or> in_range self is"
    "j < length is" "k < length is"
    "non_trainable self (is ! j) = non_trainable self (is ! k)"
  shows "\<exists>ms. snd (forward H self (Vector is)) = Inr ms \<and> length ms = length is
           \<and> ms ! j = ms ! k"
proof -
  have row: "lie_row H self (is ! j) = lie_row H self (is ! k)"
    using assms(2) by (rule lie_row_shared)
  show ?thesis
  proof (cases "non_trainable_camera_indices self = None")
    case True
    show ?thesis
      using forward_shared_trainable[OF assms(1,2) True, of H "is"] assms(4,5) row
      by simp
  next
    case False
    then have r: "in_range self is" using assms(3) by auto
    have off: "mode (config self) \<noteq> ''off''" using assms(2) by simp
    show ?thesis
      using forward_vector[OF assms(1) off r, of H] assms(4-6) row
      by simp
  qed
qed

theorem shared_rows_equal_witness:
  "\<exists>ms. snd (forward (spec_helpers (1 / 100))
                (example_trainable ''shared_SO3xR3'' (Some [(1, 2, 3, 4, 5, 6)]))
                (Vector [0, 2, 1])) = Inr ms
     \<and> length ms = length [0 :: int, 2, 1] \<and> ms ! 0 = ms ! 2"
proof -
  let ?s = "example_trainable ''shared_SO3xR3'' (Some [(1, 2, 3, 4, 5, 6)])"
  have c: "constructed ?s"
    by (simp add: constructed_def example_trainable_def default_config_def)
  have m: "mode (config ?s) = ''shared_SO3xR3''"
    by (simp add: example_trainable_def default_config_def)
  have n: "non_trainable_camera_indices ?s = None \<or> in_range ?s [0, 2, 1]"
    by (simp add: example_trainable_def)
  have p: "0 < length [0 :: int, 2, 1]" "2 < length [0 :: int, 2, 1]"
    by simp_all
  have q: "non_trainable ?s ([0, 2, 1] ! 0) = non_trainable ?s ([0, 2, 1] ! 2)"
    by (simp add: non_trainable_def example_trainable_def)
  show ?thesis
    by (rule shared_rows_equal[OF c m n p q])
qed

text \<open>
  C3, as stated, fails: with camera 1 non-trainable and a shared row that translates by
  \<open>(1, 2, 3)\<close>, the corrections of cameras 0 and 1 differ. The Lie map is the decoupled
  exponential of the spec, whose translation is the translation part of the row.
\<close>

theorem shared_rows_differ:
  "snd (forward (spec_helpers (1 / 100))
          (example_optimizer ''shared_SO3xR3'' (Some [(1, 2, 3, 0, 0, 0)])) (Vector [0, 1]))
     = Inr [((1, 0, 0, 1), (0, 1, 0, 2), (0, 0, 1, 3)), eye34]
   \<and> ((1, 0, 0, 1), (0, 1, 0, 2), (0, 0, 1, 3)) \<noteq> eye34"
proof -
  let ?s = "example_optimizer ''shared_SO3xR3'' (Some [(1, 2, 3, 0, 0, 0)])"
  have c: "constructed ?s" by (rule example_constructed)
  have m: "mode (config ?s) \<noteq> ''off''"
    by (simp add: example_optimizer_def default_config_def)
  have r: "in_range ?s [0, 1]"
    by (simp add: in_range_def example_optimizer_def)
  show ?thesis
    using forward_vector[OF c m r, of "spec_helpers (1 / 100)"]
    by (simp add: non_trainable_def lie_row_def example_optimizer_def default_config_def
        spec_helpers_def DecoupledExponential_translation eye34_def)
qed

section \<open>Mode off\<close>

lemma init_constructed:
  "init cfg n dev nt kwargs = Inr self \<Longrightarrow> constructed self"
  by (auto simp: init_def constructed_def Let_def split: if_splits option.splits)

lemma forward_off_trainable:
  assumes "mode (config self) = ''off''" "non_trainable_camera_indices self = None"
  shows "forward H self (Vector is) = (self, Inr (replicate (length is) eye34))"
  using assms by (simp add: forward_def lie_outputs_def)

lemma forward_off_non_trainable:
  assumes "mode (config self) = ''off''" "pose_adjustment self = None"
    "non_trainable_camera_indices self = Some dn"
  shows "forward H self idx = (self, Inl (AttributeError ''pose_adjustment''))"
  using assms by (cases dn) (simp add: forward_def lie_outputs_def)

text \<open>
  Mode off without a non-trainable set: \<open>forward\<close> returns one identity 3x4 transform per
  batch position, whatever the index values, and leaves the instance as it is.
\<close>

theorem forward_off_identity:
  assumes "mode (config self) = ''off''" "non_trainable_camera_indices self = None"
  shows "forward H self (Vector is) = (self, Inr (replicate (length is) eye34))"
  using assms by (rule forward_off_trainable)

theorem forward_off_identity_witness:
  "forward (spec_helpers (1 / 100)) (example_trainable ''off'' None) (Vector [2, 0, 5, 0])
     = (example_trainable ''off'' None, Inr (replicate (length [2 :: int, 0, 5, 0]) eye34))"
  by (rule forward_off_identity) (simp_all add: example_trainable_def default_config_def)

text \<open>
  C1 fails on the code for an instance in mode off that was constructed with non-trainable
  camera indices: the block that overwrites the non-trainable rows reads
  \<open>pose_adjustment\<close>, which mode off never sets, before the identity broadcast is reached.
  The instance below is what \<open>init\<close> returns for mode off, three cameras and the
  non-trainable set \<open>{1}\<close>; \<open>forward\<close> raises on it instead of returning three identity
  transforms.
\<close>

theorem forward_off_non_trainable_raises:
  "init (default_config ''off'') 3 ''cpu'' (Some (''cpu'', [1])) Map.empty
     = Inr (example_optimizer ''off'' None)
   \<and> forward H (example_optimizer ''off'' None) (Vector [0, 1, 2])
     = (example_optimizer ''off'' None, Inl (AttributeError ''pose_adjustment''))"
proof
  show "init (default_config ''off'') 3 ''cpu'' (Some (''cpu'', [1])) Map.empty
          = Inr (example_optimizer ''off'' None)"
    by (simp add: init_def example_optimizer_def default_config_def camera_filter_3)
  show "forward H (example_optimizer ''off'' None) (Vector [0, 1, 2])
          = (example_optimizer ''off'' None, Inl (AttributeError ''pose_adjustment''))"
    by (rule forward_off_non_trainable)
       (simp_all add: example_optimizer_def default_config_def)
qed

section \<open>forward returns a batch\<close>

text \<open>
  For a constructed instance that is not both in mode off and given a non-trainable set,
  and a batch of indices in \<open>[0, num_cameras)\<close> (empty, with duplicates, with the first or
  the last index), \<open>forward\<close> returns a batch with one matrix per index.
\<close>

theorem forward_returns_batch:
  assumes "constructed self" "in_range self is"
    "mode (config self) \<noteq> ''off'' \<or> non_trainable_camera_indices self = None"
  shows "\<exists>ms. snd (forward H self (Vector is)) = Inr ms \<and> length ms = length is"
proof (cases "mode (config self) = ''off''")
  case True
  then have "non_trainable_camera_indices self = None" using assms(3) by simp
  then show ?thesis using True by (simp add: forward_off_trainable)
next
  case False
  then show ?thesis using forward_vector[OF assms(1) False assms(2), of H] by simp
qed

theorem forward_returns_batch_witness:
  "\<exists>ms. snd (forward (spec_helpers (1 / 100))
                (example_optimizer ''SE3'' (Some [(1, 2, 3, 4, 5, 6), (6, 5, 4, 3, 2, 1), zero6]))
                (Vector [0, 2, 2, 0])) = Inr ms
     \<and> length ms = length [0 :: int, 2, 2, 0]"
proof -
  let ?s = "example_optimizer ''SE3'' (Some [(1, 2, 3, 4, 5, 6), (6, 5, 4, 3, 2, 1), zero6])"
  have c: "constructed ?s" by (rule example_constructed)
  have r: "in_range ?s [0, 2, 2, 0]"
    by (simp add: in_range_def example_optimizer_def)
  have m: "mode (config ?s) \<noteq> ''off'' \<or> non_trainable_camera_indices ?s = None"
    by (simp add: example_optimizer_def default_config_def)
  show ?thesis by (rule forward_returns_batch[OF c r m])
qed

text \<open>
  C4 fails on the code for the same instances as C1: a negative penalty scale turns the
  SO3xR3 configuration into mode off, and with a non-trainable set \<open>forward\<close> raises even
  on the empty batch.
\<close>

theorem forward_coerced_off_empty_batch_raises:
  "\<exists>self. init ((default_config ''SO3xR3'')\<lparr>penalty_scale := - 1\<rparr>) 3 ''cpu''
              (Some (''cpu'', [1])) Map.empty = Inr self
     \<and> mode (config self) = ''off''
     \<and> snd (forward H self (Vector [])) = Inl (AttributeError ''pose_adjustment'')"
  by (simp add: init_def default_config_def forward_off_non_trainable)

section \<open>Zero parameters\<close>

lemma DecoupledExponential_zero: "0 < eps \<Longrightarrow> DecoupledExponential eps zero6 = eye34"
  by (simp add: zero6_def DecoupledExponential_translation eye34_def)

lemma CoupledExponential_zero: "0 < eps \<Longrightarrow> CoupledExponential eps zero6 = eye34"
  by (simp add: zero6_def CoupledExponential_def rodrigues_def exp_so3_zero_rotation
      eye33_def eye34_def)

lemma rodrigues_zero_angle: "0 < eps \<Longrightarrow> rodrigues eps 0 = (1, 1 / 2, 1 / 6)"
  by (simp add: rodrigues_def)

lemma rodrigues_divisors:
  "0 < eps \<Longrightarrow> \<not> t < eps \<Longrightarrow>
     rodrigues eps t
       = (sin (sqrt t) / sqrt t, (1 - cos (sqrt t)) / t, (sqrt t - sin (sqrt t)) / (t * sqrt t))
     \<and> sqrt t \<noteq> 0 \<and> t \<noteq> 0 \<and> t * sqrt t \<noteq> 0"
  by (auto simp: rodrigues_def)

lemma lie_row_zero:
  assumes "0 < eps" "constructed self" "pose_adjustment self = Some P"
    "list_all (\<lambda>r. r = zero6) P" "0 \<le> i" "i < num_cameras self"
  shows "lie_row (spec_helpers eps) self i = eye34"
proof -
  have z: "\<And>k. k < length P \<Longrightarrow> P ! k = zero6"
    using assms(4) by (simp add: list_all_length)
  consider
      "(mode (config self) = ''SO3xR3'' \<or> mode (config self) = ''SE3'')
         \<and> length P = nat (num_cameras self)"
    | "mode (config self) = ''shared_SO3xR3'' \<and> length P = 1"
    using assms(2,3) by (auto simp: constructed_def)
  then show ?thesis
  proof cases
    case 1
    then have "P ! nat i = zero6" using assms(5,6) by (intro z) simp
    then show ?thesis
      using 1 assms(1,3)
      by (auto simp: lie_row_def spec_helpers_def DecoupledExponential_zero
          CoupledExponential_zero)
  next
    case 2
    then have "P ! 0 = zero6" by (intro z) simp
    then show ?thesis
      using 2 assms(1,3)
      by (simp add: lie_row_def spec_helpers_def DecoupledExponential_zero)
  qed
qed

lemma init_zero_parameters:
  "init cfg n dev nt kwargs = Inr self \<Longrightarrow> pose_adjustment self = Some P
     \<Longrightarrow> list_all (\<lambda>r. r = zero6) P"
  by (auto simp: init_def Let_def list_all_iff split: if_splits)

text \<open>
  C5: for an instance in mode SO3xR3, SE3 or shared_SO3xR3 whose correction parameters are
  all zero, as \<open>init\<close> leaves them (\<open>init_zero_parameters\<close>), \<open>forward\<close> returns the
  exact identity 3x4 transform at every batch position, and both Lie maps, the decoupled
  and the coupled one, send the zero row to the identity. The Lie maps are those of the spec, for any positive threshold:
  at the zero angle the series branch is taken (\<open>rodrigues_zero_angle\<close>), and the other
  branch divides by non-zero numbers only (\<open>rodrigues_divisors\<close>).
\<close>

theorem zero_parameters_identity:
  assumes "0 < eps" "constructed self" "mode (config self) \<noteq> ''off''"
    "pose_adjustment self = Some P" "list_all (\<lambda>r. r = zero6) P" "in_range self is"
  shows "snd (forward (spec_helpers eps) self (Vector is)) = Inr (replicate (length is) eye34)
         \<and> DecoupledExponential eps zero6 = eye34 \<and> CoupledExponential eps zero6 = eye34"
proof -
  have "map (\<lambda>i. if non_trainable self i then eye34 else lie_row (spec_helpers eps) self i) is
          = map (\<lambda>i. eye34) is"
    using assms(6) lie_row_zero[OF assms(1,2,4,5)]
    by (auto simp: in_range_def list_all_iff)
  then show ?thesis
    using forward_vector[OF assms(2,3,6), of "spec_helpers eps"] assms(1)
    by (simp add: map_const_replicate DecoupledExponential_zero CoupledExponential_zero)
qed

theorem zero_parameters_identity_witness:
  "snd (forward (spec_helpers (1 / 100))
          (example_trainable ''SE3'' (Some (replicate (nat 3) zero6))) (Vector [0, 2, 2]))
     = Inr (replicate (length [0 :: int, 2, 2]) eye34)
   \<and> DecoupledExponential (1 / 100) zero6 = eye34 \<and> CoupledExponential (1 / 100) zero6 = eye34
   \<and> init (default_config ''SE3'') 3 ''cpu'' None Map.empty
       = Inr (example_trainable ''SE3'' (Some (replicate (nat 3) zero6)))"
proof -
  let ?s = "example_trainable ''SE3'' (Some (replicate (nat 3) zero6))"
  have i: "init (default_config ''SE3'') 3 ''cpu'' None Map.empty = Inr ?s"
    by (simp add: init_def example_trainable_def default_config_def)
  have e: "(0 :: real) < 1 / 100" by simp
  have c: "constructed ?s" using i by (rule init_constructed)
  have m: "mode (config ?s) \<noteq> ''off''"
    by (simp add: example_trainable_def default_config_def)
  have p: "pose_adjustment ?s = Some (replicate (nat 3) zero6)"
    by (simp add: example_trainable_def)
  have z: "list_all (\<lambda>r. r = zero6) (replicate (nat 3) zero6)"
    by (simp add: list_all_iff)
  have r: "in_range ?s [0, 2, 2]"
    by (simp add: in_range_def example_trainable_def)
  show ?thesis
    using zero_parameters_identity[OF e c m p z r] i by simp
qed

section \<open>The mode after construction\<close>

lemma apply_to_raybundle_config:
  "config (fst (apply_to_raybundle H self rb)) = config self"
proof (cases "forward H self (squeeze (camera_indices rb))")
  case (Pair self' res)
  have "config self' = config self"
    using forward_config[of H self "squeeze (camera_indices rb)"] Pair by simp
  then show ?thesis
    using Pair
    by (auto simp: apply_to_raybundle_def Let_def split: sum.splits)
qed

lemma apply_to_camera_config:
  "config (fst (apply_to_camera H self camera)) = config self"
proof (cases "mode (config self) \<noteq> ''off''")
  case False
  then show ?thesis by (simp add: apply_to_camera_def)
next
  case True
  show ?thesis
  proof (cases "metadata camera")
    case None
    then show ?thesis using True by (simp add: apply_to_camera_def)
  next
    case (Some md)
    show ?thesis
    proof (cases "md ''cam_idx''")
      case None
      then show ?thesis using True Some by (simp add: apply_to_camera_def)
    next
      case (Some camera_idx)
      obtain self' res where f: "forward H self (Vector [camera_idx]) = (self', res)"
        by (cases "forward H self (Vector [camera_idx])")
      have "config self' = config self"
        using forward_config[of H self "Vector [camera_idx]"] f by simp
      then show ?thesis
        using True \<open>metadata camera = Some md\<close> Some f
        by (auto simp: apply_to_camera_def split: sum.splits)
    qed
  qed
qed

text \<open>
  C6: a negative penalty scale makes \<open>init\<close> return, without an error, an instance in mode
  off with no correction parameters, whatever mode was configured; with a non-negative
  penalty scale the instance \<open>init\<close> returns has the configured mode; and the operations
  that change the instance or are given it to change (\<open>forward\<close>, \<open>apply_to_raybundle\<close>,
  \<open>apply_to_camera\<close>) leave the mode as it is.
\<close>

theorem penalty_scale_coercion:
  "(penalty_scale cfg < 0 \<longrightarrow>
      (\<exists>self. init cfg n dev nt kwargs = Inr self \<and> mode (config self) = ''off''
         \<and> pose_adjustment self = None))
   \<and> (0 \<le> penalty_scale cfg \<longrightarrow> init cfg n dev nt kwargs = Inr self
        \<longrightarrow> mode (config self) = mode cfg)
   \<and> mode (config (fst (forward H s idx))) = mode (config s)
   \<and> mode (config (fst (apply_to_raybundle H s rb))) = mode (config s)
   \<and> mode (config (fst (apply_to_camera H s camera))) = mode (config s)"
proof (intro conjI impI)
  assume "penalty_scale cfg < 0"
  then show "\<exists>self. init cfg n dev nt kwargs = Inr self \<and> mode (config self) = ''off''
               \<and> pose_adjustment self = None"
    by (simp add: init_def)
next
  assume "0 \<le> penalty_scale cfg" "init cfg n dev nt kwargs = Inr self"
  then show "mode (config self) = mode cfg"
    by (auto simp: init_def Let_def split: if_splits)
next
  show "mode (config (fst (forward H s idx))) = mode (config s)"
    by (simp add: forward_config)
  show "mode (config (fst (apply_to_raybundle H s rb))) = mode (config s)"
    by (simp add: apply_to_raybundle_config)
  show "mode (config (fst (apply_to_camera H s camera))) = mode (config s)"
    by (simp add: apply_to_camera_config)
qed

theorem penalty_scale_coercion_witness:
  "(\<exists>self. init ((default_config ''SE3'')\<lparr>penalty_scale := - 1\<rparr>) 3 ''cpu'' None Map.empty = Inr self
       \<and> mode (config self) = ''off'' \<and> pose_adjustment self = None)
   \<and> mode (config (example_trainable ''SE3'' (Some (replicate (nat 3) zero6)))) = ''SE3''
   \<and> mode (config (fst (forward (spec_helpers (1 / 100))
         (example_trainable ''SE3'' (Some (replicate (nat 3) zero6))) (Vector [0])))) = ''SE3''"
proof -
  let ?neg = "(default_config ''SE3'')\<lparr>penalty_scale := - 1\<rparr>"
  let ?s = "example_trainable ''SE3'' (Some (replicate (nat 3) zero6))"
  have n: "penalty_scale ?neg < 0" by (simp add: default_config_def)
  have p: "0 \<le> penalty_scale (default_config ''SE3'')" by (simp add: default_config_def)
  have i: "init (default_config ''SE3'') 3 ''cpu'' None Map.empty = Inr ?s"
    by (simp add: init_def example_trainable_def default_config_def)
  have m: "mode (default_config ''SE3'') = ''SE3''" by (simp add: default_config_def)
  have a: "\<exists>self. init ?neg 3 ''cpu'' None Map.empty = Inr self \<and> mode (config self) = ''off''
             \<and> pose_adjustment self = None"
    using penalty_scale_coercion[of ?neg 3 "''cpu''" None Map.empty] n by blast
  have b: "mode (config ?s) = ''SE3''"
    using penalty_scale_coercion[of "default_config ''SE3''" 3 "''cpu''" None Map.empty ?s] p i m
    by simp
  have c: "mode (config (fst (forward (spec_helpers (1 / 100)) ?s (Vector [0])))) = ''SE3''"
    using penalty_scale_coercion[of _ _ _ _ _ _ "spec_helpers (1 / 100)" ?s "Vector [0]"] b
    by simp
  from a b c show ?thesis by blast
qed

section \<open>apply_to_camera\<close>

text \<open>
  C7: in a mode other than off, \<open>apply_to_camera\<close> fails with the assertion error when the
  camera's metadata is absent or has no \<open>cam_idx\<close> entry, and then the camera (its
  camera-to-world transform included) and the instance are as before the call; in mode
  off the call changes nothing and raises nothing, whatever the metadata.
\<close>

theorem apply_to_camera_requires_identifier:
  "(mode (config self) \<noteq> ''off'' \<longrightarrow>
      (metadata camera = None \<or> (\<exists>md. metadata camera = Some md \<and> md ''cam_idx'' = None)) \<longrightarrow>
      apply_to_camera H self camera
        = (self, camera, Some (AssertionError ''Must provide id of camera in its metadata'')))
   \<and> (mode (config self) = ''off'' \<longrightarrow> apply_to_camera H self camera = (self, camera, None))"
  by (auto simp: apply_to_camera_def)

theorem apply_to_camera_requires_identifier_witness:
  "apply_to_camera (spec_helpers (1 / 100))
      (example_optimizer ''SO3xR3'' (Some [(1, 2, 3, 4, 5, 6), (6, 5, 4, 3, 2, 1), zero6]))
      \<lparr>camera_to_worlds = [[(1, 0, 0, 5), (0, 1, 0, 6), (0, 0, 1, 7)]], metadata = None\<rparr>
     = (example_optimizer ''SO3xR3'' (Some [(1, 2, 3, 4, 5, 6), (6, 5, 4, 3, 2, 1), zero6]),
        \<lparr>camera_to_worlds = [[(1, 0, 0, 5), (0, 1, 0, 6), (0, 0, 1, 7)]], metadata = None\<rparr>,
        Some (AssertionError ''Must provide id of camera in its metadata''))
   \<and> apply_to_camera (spec_helpers (1 / 100))
      (example_optimizer ''SE3'' (Some [(1, 2, 3, 4, 5, 6), (6, 5, 4, 3, 2, 1), zero6]))
      \<lparr>camera_to_worlds = [[(1, 0, 0, 5), (0, 1, 0, 6), (0, 0, 1, 7)]],
        metadata = Some [''other'' \<mapsto> 4]\<rparr>
     = (example_optimizer ''SE3'' (Some [(1, 2, 3, 4, 5, 6), (6, 5, 4, 3, 2, 1), zero6]),
        \<lparr>camera_to_worlds = [[(1, 0, 0, 5), (0, 1, 0, 6), (0, 0, 1, 7)]],
          metadata = Some [''other'' \<mapsto> 4]\<rparr>,
        Some (AssertionError ''Must provide id of camera in its metadata''))
   \<and> apply_to_camera (spec_helpers (1 / 100)) (example_optimizer ''off'' None)
      \<lparr>camera_to_worlds = [[(1, 0, 0, 5), (0, 1, 0, 6), (0, 0, 1, 7)]], metadata = None\<rparr>
     = (example_optimizer ''off'' None,
        \<lparr>camera_to_worlds = [[(1, 0, 0, 5), (0, 1, 0, 6), (0, 0, 1, 7)]], metadata = None\<rparr>,
        None)"
proof -
  let ?P = "Some [(1, 2, 3, 4, 5, 6), (6, 5, 4, 3, 2, 1), zero6]"
  let ?c = "\<lparr>camera_to_worlds = [[(1, 0, 0, 5), (0, 1, 0, 6), (0, 0, 1, 7)]], metadata = None\<rparr>"
  let ?d = "\<lparr>camera_to_worlds = [[(1, 0, 0, 5), (0, 1, 0, 6), (0, 0, 1, 7)]],
             metadata = Some [''other'' \<mapsto> (4 :: int)]\<rparr>"
  have m: "mode (config (example_optimizer ''SO3xR3'' ?P)) \<noteq> ''off''"
       "mode (config (example_optimizer ''SE3'' ?P)) \<noteq> ''off''"
       "mode (config (example_optimizer ''off'' None)) = ''off''"
    by (simp_all add: example_optimizer_def default_config_def)
  have c: "metadata ?c = None" by simp
  have d: "\<exists>md. metadata ?d = Some md \<and> md ''cam_idx'' = None" by simp
  show ?thesis
    using apply_to_camera_requires_identifier[of "example_optimizer ''SO3xR3'' ?P" ?c
            "spec_helpers (1 / 100)"]
      apply_to_camera_requires_identifier[of "example_optimizer ''SE3'' ?P" ?d
            "spec_helpers (1 / 100)"]
      apply_to_camera_requires_identifier[of "example_optimizer ''off'' None" ?c
            "spec_helpers (1 / 100)"]
      m c d
    by blast
qed

section \<open>The regularization term\<close>








lemma smean_empty: "smean [] = NaN"
  by (simp add: smean_def)


lemma get_loss_dict_no_rows:
  assumes "mode (config self) \<noteq> ''off''" "pose_adjustment self = Some []"
  shows "get_loss_dict exact_arithmetic self loss_dict
     = Inr (loss_dict(''camera_opt_regularizer'' @ suffix self \<mapsto> NaN))"
  using assms by (simp add: get_loss_dict_def exact_arithmetic_def smean_empty)




section \<open>apply_to_raybundle\<close>

lemma squeeze_batch: "length xs \<noteq> 1 \<Longrightarrow> squeeze xs = Vector xs"
  by (cases xs rule: squeeze.cases) simp_all

text \<open>
  On a ray bundle whose batch size is not one, with camera indices in
  \<open>[0, num_cameras)\<close> and origins and directions of the batch size: in mode off
  \<open>apply_to_raybundle\<close> leaves the bundle as it is; in any other mode it computes the
  corrections of the bundle's camera indices and replaces every origin by the origin plus
  the translation column of its correction, and every direction by the rotation block of
  its correction applied to the direction.
\<close>

theorem apply_to_raybundle_batch:
  assumes "constructed self" "in_range self (camera_indices rb)"
    "length (camera_indices rb) \<noteq> 1"
    "length (origins rb) = length (camera_indices rb)"
    "directions rb = Vector ds" "length ds = length (camera_indices rb)"
  shows "(mode (config self) = ''off'' \<longrightarrow> apply_to_raybundle H self rb = (self, rb, None))
    \<and> (mode (config self) \<noteq> ''off'' \<longrightarrow>
         (\<exists>self' cm os' ds'.
            forward H self (Vector (camera_indices rb)) = (self', Inr cm)
            \<and> apply_to_raybundle H self rb
                = (self', rb\<lparr>origins := os', directions := Vector ds'\<rparr>, None)
            \<and> length cm = length ds \<and> length os' = length ds \<and> length ds' = length ds
            \<and> (\<forall>k < length ds.
                  os' ! k = vadd (origins rb ! k) (translation_col (cm ! k))
                  \<and> ds' ! k = matvec (rotation_block (cm ! k)) (ds ! k))))"
proof (intro conjI impI)
  assume "mode (config self) = ''off''"
  then show "apply_to_raybundle H self rb = (self, rb, None)"
    by (simp add: apply_to_raybundle_def)
next
  assume m: "mode (config self) \<noteq> ''off''"
  let ?is = "camera_indices rb"
  obtain self' res where f: "forward H self (Vector ?is) = (self', res)"
    by (cases "forward H self (Vector ?is)")
  define cm where "cm = map (\<lambda>i. if non_trainable self i then eye34 else lie_row H self i) ?is"
  have res: "res = Inr cm"
    using forward_vector[OF assms(1) m assms(2), of H] f by (simp add: cm_def)
  have lcm: "length cm = length ds" by (simp add: cm_def assms(6))
  let ?os = "map (\<lambda>(x, y). vadd x y) (zip (origins rb) (map translation_col cm))"
  let ?ds = "map (\<lambda>(r, d). matvec r d) (zip (map rotation_block cm) ds)"
  have a: "add_broadcast (origins rb) (map translation_col cm) = Inr ?os"
    using lcm assms(4,6) by (simp add: add_broadcast_def)
  have b: "bmm_vec (map rotation_block cm) (Vector ds) = Inr ?ds"
    using lcm by simp
  have lds: "length ?ds \<noteq> 1" using lcm assms(3,6) by simp
  have run: "apply_to_raybundle H self rb
               = (self', rb\<lparr>origins := ?os, directions := Vector ?ds\<rparr>, None)"
    using m f res a b assms(3,5) squeeze_batch[OF lds]
    by (simp add: apply_to_raybundle_def squeeze_batch Let_def)
  have pt: "\<forall>k < length ds.
              ?os ! k = vadd (origins rb ! k) (translation_col (cm ! k))
              \<and> ?ds ! k = matvec (rotation_block (cm ! k)) (ds ! k)"
    using lcm assms(4,6) by simp
  show "\<exists>self' cm os' ds'.
            forward H self (Vector (camera_indices rb)) = (self', Inr cm)
            \<and> apply_to_raybundle H self rb
                = (self', rb\<lparr>origins := os', directions := Vector ds'\<rparr>, None)
            \<and> length cm = length ds \<and> length os' = length ds \<and> length ds' = length ds
            \<and> (\<forall>k < length ds.
                  os' ! k = vadd (origins rb ! k) (translation_col (cm ! k))
                  \<and> ds' ! k = matvec (rotation_block (cm ! k)) (ds ! k))"
  proof (intro exI conjI)
    show "forward H self (Vector (camera_indices rb)) = (self', Inr cm)"
      using f res by simp
    show "apply_to_raybundle H self rb
            = (self', rb\<lparr>origins := ?os, directions := Vector ?ds\<rparr>, None)"
      by (rule run)
    show "length cm = length ds" by (rule lcm)
    show "length ?os = length ds" using lcm assms(4,6) by simp
    show "length ?ds = length ds" using lcm by simp
    show "\<forall>k < length ds.
              ?os ! k = vadd (origins rb ! k) (translation_col (cm ! k))
              \<and> ?ds ! k = matvec (rotation_block (cm ! k)) (ds ! k)"
      by (rule pt)
  qed
qed

theorem apply_to_raybundle_batch_witness:
  "\<exists>self' cm os' ds'.
     forward (spec_helpers (1 / 100))
       (example_optimizer ''SO3xR3'' (Some [(1, 2, 3, 4, 5, 6), (6, 5, 4, 3, 2, 1), zero6]))
       (Vector (camera_indices
          \<lparr>origins = [(0, 0, 0), (1, 1, 1)], directions = Vector [(0, 0, 1), (0, 1, 0)],
            camera_indices = [2, 0]\<rparr>)) = (self', Inr cm)
     \<and> apply_to_raybundle (spec_helpers (1 / 100))
         (example_optimizer ''SO3xR3'' (Some [(1, 2, 3, 4, 5, 6), (6, 5, 4, 3, 2, 1), zero6]))
         \<lparr>origins = [(0, 0, 0), (1, 1, 1)], directions = Vector [(0, 0, 1), (0, 1, 0)],
           camera_indices = [2, 0]\<rparr>
       = (self',
          \<lparr>origins = [(0, 0, 0), (1, 1, 1)], directions = Vector [(0, 0, 1), (0, 1, 0)],
            camera_indices = [2, 0]\<rparr>\<lparr>origins := os', directions := Vector ds'\<rparr>,
          None)
     \<and> length cm = length [(0 :: real, 0 :: real, 1 :: real), (0, 1, 0)]
     \<and> length os' = length [(0 :: real, 0 :: real, 1 :: real), (0, 1, 0)]
     \<and> length ds' = length [(0 :: real, 0 :: real, 1 :: real), (0, 1, 0)]
     \<and> (\<forall>k < length [(0 :: real, 0 :: real, 1 :: real), (0, 1, 0)].
           os' ! k
             = vadd (origins
                 \<lparr>origins = [(0, 0, 0), (1, 1, 1)], directions = Vector [(0, 0, 1), (0, 1, 0)],
                   camera_indices = [2, 0]\<rparr> ! k) (translation_col (cm ! k))
           \<and> ds' ! k = matvec (rotation_block (cm ! k)) ([(0, 0, 1), (0, 1, 0)] ! k))"
proof -
  let ?s = "example_optimizer ''SO3xR3'' (Some [(1, 2, 3, 4, 5, 6), (6, 5, 4, 3, 2, 1), zero6])"
  let ?rb = "\<lparr>origins = [(0, 0, 0), (1, 1, 1)], directions = Vector [(0, 0, 1), (0, 1, 0)],
              camera_indices = [2, 0]\<rparr>"
  have c: "constructed ?s" by (rule example_constructed)
  have r: "in_range ?s (camera_indices ?rb)"
    by (simp add: in_range_def example_optimizer_def)
  have n: "length (camera_indices ?rb) \<noteq> 1" "length (origins ?rb) = length (camera_indices ?rb)"
    "directions ?rb = Vector [(0, 0, 1), (0, 1, 0)]"
    "length [(0 :: real, 0 :: real, 1 :: real), (0, 1, 0)] = length (camera_indices ?rb)"
    by simp_all
  have m: "mode (config ?s) \<noteq> ''off''"
    by (simp add: example_optimizer_def default_config_def)
  show ?thesis
    using apply_to_raybundle_batch[OF c r n, of "spec_helpers (1 / 100)"] m by blast
qed

text \<open>
  C9 fails on the code for a ray bundle of a single ray: \<^verbatim>\<open>squeeze()\<close> removes every axis
  of size one, not only the trailing one, so the index tensor of shape \<open>[1, 1]\<close> reaches
  \<open>forward\<close> without a batch axis. In the shared mode \<open>forward\<close> then raises at
  \<^verbatim>\<open>indices.shape[0]\<close>, and the bundle is left as it was. The instance is the one \<open>init\<close>
  returns for the shared mode and three cameras.
\<close>

theorem apply_to_raybundle_single_ray_raises:
  "init (default_config ''shared_SO3xR3'') 3 ''cpu'' None Map.empty
     = Inr (example_trainable ''shared_SO3xR3'' (Some [zero6]))
   \<and> apply_to_raybundle H (example_trainable ''shared_SO3xR3'' (Some [zero6]))
       \<lparr>origins = [(0, 0, 0)], directions = Vector [(0, 0, 1)], camera_indices = [2]\<rparr>
     = (example_trainable ''shared_SO3xR3'' (Some [zero6]),
        \<lparr>origins = [(0, 0, 0)], directions = Vector [(0, 0, 1)], camera_indices = [2]\<rparr>,
        Some IndexError)"
  by (simp add: init_def example_trainable_def default_config_def apply_to_raybundle_def
      forward_def lie_outputs_def)

end
